theory Spec2Isabelle
  imports Main
begin

section \<open>The A/B experiment hooks of \<open>src/app/new-homepage/page.tsx\<close>\<close>

subsection \<open>Experiments and their variants\<close>

text \<open>
  \<^verbatim>\<open>const abExperiments = { header: [...], footer: [...] } as const\<close>.
  The hook's type parameter \<open>T extends keyof typeof abExperiments\<close> admits the two keys
  only, so an experiment name is a value of a two-element datatype; \<open>experimentKey\<close> is
  the JavaScript string of the key, which is what a template literal or an event field
  receives.
\<close>

datatype experiment_name = Header | Footer

fun experimentKey :: "experiment_name \<Rightarrow> string" where
  "experimentKey Header = ''header''"
| "experimentKey Footer = ''footer''"

fun abExperiments :: "experiment_name \<Rightarrow> string list" where
  "abExperiments Header = [''kill-queues-headline'', ''event-driven-headerline'']"
| "abExperiments Footer = [''removed'', ''highlighted'']"

subsection \<open>JavaScript values and the browser window\<close>

text \<open>
  \<open>anonId\<close> has the type \<open>string | undefined\<close>: a \<open>string option\<close>, \<open>None\<close> being
  \<open>undefined\<close>. A template literal converts each hole with ToString, which turns
  \<open>undefined\<close> into the nine characters \<open>undefined\<close>.
\<close>

fun toString :: "string option \<Rightarrow> string" where
  "toString None = ''undefined''"
| "toString (Some s) = s"

text \<open>The argument of the split, \<^verbatim>\<open>`${anonId}_${experimentName}`\<close>.\<close>

definition splitInput :: "string option \<Rightarrow> experiment_name \<Rightarrow> string" where
  "splitInput anonId experimentName = toString anonId @ ''_'' @ experimentKey experimentName"

text \<open>
  The argument of \<^verbatim>\<open>window.Inngest.event\<close>. The window holds the local storage (keys to
  the values stored under them) and, as \<open>Inngest\<close>, the events handed to
  \<^verbatim>\<open>window.Inngest.event\<close> so far, oldest first. The global's declared type has
  \<open>Inngest\<close> always present, so the call itself does not fail.
\<close>

record event_data =
  anonymous_id :: "string option"
  "experiment" :: string
  variant :: string

record event =
  name :: string
  data :: event_data

type_synonym storage = "string \<rightharpoonup> string"

record window =
  localStorage :: storage
  Inngest :: "event list"

subsection \<open>The library hooks the code calls\<close>

text \<open>
  \<open>useLocalStorage\<close> (package \<open>react-use\<close>), \<open>useMemo\<close> and \<open>useEffect\<close> (package
  \<open>react\<close>) are imported, not defined in this source tree; they are modelled by their
  documented behaviour.

  \<open>useLocalStorage key initialValue\<close> keeps its value in a state cell of the mounted
  component. When the component mounts (the cell is empty) it reads the storage: the
  value stored under \<open>key\<close> if there is one, otherwise \<open>initialValue\<close>, which it also
  stores when it is given and not the empty string (\<^verbatim>\<open>initialValue && setItem(...)\<close>).
  Every later render yields the value of the cell, whatever the storage holds by then.
  The setter and the remover it also returns are the only ways the cell or the storage
  change afterwards; \<open>useAnonId\<close> destructures the first component alone, so they are not
  part of the model. The stored value is taken as the string the hook deserialises, and
  the storage as one that can be read.
\<close>

definition useLocalStorage ::
  "string \<Rightarrow> string option \<Rightarrow> string option option \<Rightarrow> storage \<Rightarrow>
     string option \<times> string option option \<times> storage" where
  "useLocalStorage key initialValue cell ls =
     (case cell of
        Some kept \<Rightarrow> (kept, cell, ls)
      | None \<Rightarrow>
          (case ls key of
             Some v \<Rightarrow> (Some v, Some (Some v), ls)
           | None \<Rightarrow>
               (initialValue, Some initialValue,
                case initialValue of
                  None \<Rightarrow> ls
                | Some i \<Rightarrow> if i = [] then ls else ls(key \<mapsto> i))))"

text \<open>
  \<open>useMemo create deps\<close> keeps, in a cell of the mounted component, the dependencies and
  the value of the last computation; it calls \<open>create\<close> on the first render and whenever
  the dependencies differ from the kept ones.
\<close>

definition useMemo :: "(unit \<Rightarrow> 'v) \<Rightarrow> 'd \<Rightarrow> ('d \<times> 'v) option \<Rightarrow> 'v \<times> ('d \<times> 'v) option" where
  "useMemo create deps cell =
     (case cell of
        None \<Rightarrow> (let v = create () in (v, Some (deps, v)))
      | Some (prev, kept) \<Rightarrow>
          if prev = deps then (kept, cell)
          else (let v = create () in (v, Some (deps, v))))"

text \<open>
  \<open>useEffect effect deps\<close> runs \<open>effect\<close> after the first render and after every render
  whose dependencies differ from those of the render before; its cell keeps the
  dependencies of the last render.
\<close>

definition useEffect :: "('w \<Rightarrow> 'w) \<Rightarrow> 'd \<Rightarrow> 'd option \<Rightarrow> 'w \<Rightarrow> 'w \<times> 'd option" where
  "useEffect effect deps cell w =
     (if cell = Some deps then (w, cell) else (effect w, Some deps))"

text \<open>
  The cells \<open>useAbTest\<close> owns in a mounted component, in the order of its hook calls:
  the state of \<open>useLocalStorage\<close> (through \<open>useAnonId\<close>), the memo and the effect. All
  are empty at mount.
\<close>

record fiber =
  anonState :: "string option option"
  memo :: "((string option \<times> experiment_name) \<times> string) option"
  effect :: "(string \<times> string option \<times> experiment_name) option"

definition mount :: fiber where
  "mount = \<lparr>anonState = None, memo = None, effect = None\<rparr>"

subsection \<open>The hooks\<close>

text \<open>
  \<^verbatim>\<open>const [anonId] = useLocalStorage<string>("inngest-anon-id"); return { anonId }\<close>:
  no initial value is passed. The result is the identifier, the state cell and the
  storage afterwards.
\<close>

definition useAnonId ::
  "string option option \<Rightarrow> storage \<Rightarrow> string option \<times> string option option \<times> storage" where
  "useAnonId cell ls = useLocalStorage ''inngest-anon-id'' None cell ls"

text \<open>
  One render of a component that calls \<open>useAbTest experimentName\<close>, its effect included.
  \<open>deterministicSplit\<close> is the default export of the package \<open>deterministic-split\<close>,
  which is imported and not part of this source tree: it is a parameter here. The result
  is the \<open>variant\<close> field of the returned object, the component's cells and the window
  after the render.
\<close>

definition useAbTest ::
  "(string \<Rightarrow> string list \<Rightarrow> string) \<Rightarrow> experiment_name \<Rightarrow> fiber \<times> window \<Rightarrow> string \<times> fiber \<times> window" where
  "useAbTest deterministicSplit experimentName s =
     (let (f, w) = s;
          (anonId, c, ls) = useAnonId (anonState f) (localStorage w);
          (variant, m) =
            useMemo
              (\<lambda>_. deterministicSplit (splitInput anonId experimentName) (abExperiments experimentName))
              (anonId, experimentName) (memo f);
          (w', e) =
            useEffect
              (\<lambda>w. w\<lparr>Inngest := Inngest w @
                 [\<lparr>name = ''app/experiment.viewed'',
                   data = \<lparr>anonymous_id = anonId,
                           experiment = experimentKey experimentName,
                           variant = variant\<rparr>\<rparr>]\<rparr>)
              (variant, anonId, experimentName) (effect f) (w\<lparr>localStorage := ls\<rparr>)
      in (variant, \<lparr>anonState = c, memo = m, effect = e\<rparr>, w'))"

text \<open>
  The life of one mounted component: a list of renders, each with the local storage as it
  is when the render runs (other code may have changed it in between) and the experiment
  name passed to the hook. A mount starts from \<open>mount\<close>; its first render is the one
  that reads the storage.
\<close>

fun renders ::
  "(string \<Rightarrow> string list \<Rightarrow> string) \<Rightarrow> (storage \<times> experiment_name) list \<Rightarrow> fiber \<times> window \<Rightarrow> fiber \<times> window" where
  "renders sp [] s = s"
| "renders sp ((ls, e) # rs) (f, w) =
     renders sp rs (snd (useAbTest sp e (f, w\<lparr>localStorage := ls\<rparr>)))"

text \<open>
  The local storage as it was when a component mounted, for a component that has gone
  through the renders \<open>h\<close> and is rendered once more in the window \<open>w\<close>: the storage of
  the first render of \<open>h\<close>, or that of \<open>w\<close> when \<open>h\<close> is empty and this render is the
  mount.
\<close>

definition storageAtMount :: "(storage \<times> experiment_name) list \<Rightarrow> window \<Rightarrow> storage" where
  "storageAtMount h w = (case h of [] \<Rightarrow> localStorage w | r # _ \<Rightarrow> fst r)"

text \<open>
  Modelled from the spec: the package \<open>deterministic-split\<close> is missing from the source
  tree. The spec describes it as a deterministic-hash splitting utility that hashes its
  string argument to select one of the given variant labels; the hash function itself
  is left open as the parameter \<open>hash\<close>. Both experiments list two variants, so the index
  is in range wherever the hook calls it.
\<close>

definition deterministicSplit :: "(string \<Rightarrow> nat) \<Rightarrow> string \<Rightarrow> string list \<Rightarrow> string" where
  "deterministicSplit hash input variants = variants ! (hash input mod length variants)"

text \<open>The event the effect sends for the identifier \<open>fst k\<close> and the experiment name \<open>snd k\<close>.\<close>

definition viewed :: "(string \<Rightarrow> string list \<Rightarrow> string) \<Rightarrow> string option \<times> experiment_name \<Rightarrow> event" where
  "viewed sp k =
     \<lparr>name = ''app/experiment.viewed'',
      data = \<lparr>anonymous_id = fst k,
              experiment = experimentKey (snd k),
              variant = sp (splitInput (fst k) (snd k)) (abExperiments (snd k))\<rparr>\<rparr>"

text \<open>
  The cells of a component that read the identifier \<open>fst k\<close> when it mounted and whose
  last render was passed the experiment name \<open>snd k\<close>.
\<close>

definition committed :: "(string \<Rightarrow> string list \<Rightarrow> string) \<Rightarrow> string option \<times> experiment_name \<Rightarrow> fiber" where
  "committed sp k =
     \<lparr>anonState = Some (fst k),
      memo = Some (k, sp (splitInput (fst k) (snd k)) (abExperiments (snd k))),
      effect = Some (sp (splitInput (fst k) (snd k)) (abExperiments (snd k)), fst k, snd k)\<rparr>"

section \<open>Properties\<close>

subsection \<open>Single renders\<close>

lemma useAnonId_mount: "useAnonId None ls = (ls ''inngest-anon-id'', Some (ls ''inngest-anon-id''), ls)"
  by (simp add: useAnonId_def useLocalStorage_def split: option.splits)

lemma useAnonId_mounted: "useAnonId (Some a) ls = (a, Some a, ls)"
  by (simp add: useAnonId_def useLocalStorage_def)

lemma useAnonId_storage: "snd (snd (useAnonId cell ls)) = ls"
  by (cases cell) (simp_all add: useAnonId_mount useAnonId_mounted)

lemma useAbTest_mount:
  "useAbTest sp e (mount, w) =
     (sp (splitInput (localStorage w ''inngest-anon-id'') e) (abExperiments e),
      committed sp (localStorage w ''inngest-anon-id'', e),
      w\<lparr>Inngest := Inngest w @ [viewed sp (localStorage w ''inngest-anon-id'', e)]\<rparr>)"
  by (simp add: useAbTest_def useAnonId_mount useMemo_def useEffect_def mount_def
      committed_def viewed_def Let_def)

lemma useAbTest_committed:
  "useAbTest sp e (committed sp (a, e0), w) =
     (sp (splitInput a e) (abExperiments e),
      committed sp (a, e),
      if e0 = e then w else w\<lparr>Inngest := Inngest w @ [viewed sp (a, e)]\<rparr>)"
  by (auto simp add: useAbTest_def useAnonId_mounted useMemo_def useEffect_def
      committed_def viewed_def Let_def)

lemma useAbTest_storage:
  "localStorage (snd (snd (useAbTest sp e (f, w)))) = localStorage w"
proof -
  obtain a c where u: "useAnonId (anonState f) (localStorage w) = (a, c, localStorage w)"
    using useAnonId_storage [of "anonState f" "localStorage w"]
    by (cases "useAnonId (anonState f) (localStorage w)") auto
  show ?thesis
    by (simp add: useAbTest_def u useMemo_def useEffect_def Let_def
        split: option.splits prod.splits)
qed

subsection \<open>Mounted components\<close>

lemma renders_committed_fiber:
  "fst (renders sp rs (committed sp (a, e0), w)) = committed sp (a, last (e0 # map snd rs))"
proof (induction rs arbitrary: e0 w)
  case Nil
  show ?case by simp
next
  case (Cons r rs)
  obtain ls e where r: "r = (ls, e)" by (cases r)
  show ?case
    using Cons.IH [of e] by (simp add: r useAbTest_committed)
qed

lemma renders_mount_fiber:
  "fst (renders sp rs (mount, w)) =
     (if rs = [] then mount
      else committed sp (storageAtMount rs w ''inngest-anon-id'', snd (last rs)))"
proof (cases rs)
  case Nil
  then show ?thesis by simp
next
  case (Cons r rs')
  obtain ls e where r: "r = (ls, e)" by (cases r)
  show ?thesis
    by (simp add: Cons r useAbTest_mount renders_committed_fiber storageAtMount_def last_map)
qed

lemma anonId_resolved:
  "fst (useAnonId (anonState (fst (renders sp h (mount, v)))) (localStorage w)) =
     storageAtMount h w ''inngest-anon-id''"
proof (cases h)
  case Nil
  then show ?thesis
    by (simp add: mount_def useAnonId_mount storageAtMount_def)
next
  case (Cons r h')
  then show ?thesis
    by (simp add: renders_mount_fiber committed_def useAnonId_mounted storageAtMount_def)
qed

lemma variant_resolved:
  "fst (useAbTest sp e (fst (renders sp h (mount, v)), w)) =
     sp (splitInput (storageAtMount h w ''inngest-anon-id'') e) (abExperiments e)"
  by (cases h)
    (simp_all add: renders_mount_fiber useAbTest_mount useAbTest_committed storageAtMount_def)

lemma remdups_adj_head: "remdups_adj (x # xs) = x # tl (remdups_adj (x # xs))"
proof -
  have "remdups_adj (x # xs) \<noteq> []" by simp
  moreover have "hd (remdups_adj (x # xs)) = x" by simp
  ultimately show ?thesis by (metis list.collapse)
qed

lemma map_remdups_adj_head:
  "map f (remdups_adj (x # xs)) = f x # map f (tl (remdups_adj (x # xs)))"
  using remdups_adj_head [of x xs] by (metis list.simps(9))

lemma renders_committed_events:
  "Inngest (snd (renders sp rs (committed sp (a, e0), w))) =
     Inngest w @ map (\<lambda>e. viewed sp (a, e)) (tl (remdups_adj (e0 # map snd rs)))"
proof (induction rs arbitrary: e0 w)
  case Nil
  show ?case by simp
next
  case (Cons r rs e0 w)
  obtain ls e where r: "r = (ls, e)" by (cases r)
  show ?case
  proof (cases "e0 = e")
    case True
    have "renders sp (r # rs) (committed sp (a, e0), w) =
        renders sp rs (committed sp (a, e), w\<lparr>localStorage := ls\<rparr>)"
      using True by (simp add: r useAbTest_committed)
    then have "Inngest (snd (renders sp (r # rs) (committed sp (a, e0), w))) =
        Inngest w @ map (\<lambda>e. viewed sp (a, e)) (tl (remdups_adj (e # map snd rs)))"
      using Cons.IH [of e "w\<lparr>localStorage := ls\<rparr>"] by simp
    then show ?thesis
      using True by (simp add: r)
  next
    case False
    have "renders sp (r # rs) (committed sp (a, e0), w) =
        renders sp rs (committed sp (a, e),
          w\<lparr>localStorage := ls, Inngest := Inngest w @ [viewed sp (a, e)]\<rparr>)"
      using False by (simp add: r useAbTest_committed)
    then have "Inngest (snd (renders sp (r # rs) (committed sp (a, e0), w))) =
        Inngest w @ viewed sp (a, e) #
          map (\<lambda>e. viewed sp (a, e)) (tl (remdups_adj (e # map snd rs)))"
      using Cons.IH [of e "w\<lparr>localStorage := ls, Inngest := Inngest w @ [viewed sp (a, e)]\<rparr>"]
      by simp
    then show ?thesis
      using False by (simp add: r map_remdups_adj_head)
  qed
qed

lemma renders_mount_events:
  "Inngest (snd (renders sp rs (mount, w))) =
     Inngest w @
     map (\<lambda>e. viewed sp (storageAtMount rs w ''inngest-anon-id'', e)) (remdups_adj (map snd rs))"
proof (cases rs)
  case Nil
  then show ?thesis by simp
next
  case (Cons r rs')
  obtain ls e where r: "r = (ls, e)" by (cases r)
  let ?a = "ls ''inngest-anon-id''"
  have "renders sp rs (mount, w) =
      renders sp rs' (committed sp (?a, e),
        w\<lparr>localStorage := ls, Inngest := Inngest w @ [viewed sp (?a, e)]\<rparr>)"
    by (simp add: Cons r useAbTest_mount)
  then have "Inngest (snd (renders sp rs (mount, w))) =
      Inngest w @ viewed sp (?a, e) #
        map (\<lambda>e. viewed sp (?a, e)) (tl (remdups_adj (e # map snd rs')))"
    by (simp add: renders_committed_events)
  then show ?thesis
    by (simp add: Cons r storageAtMount_def map_remdups_adj_head)
qed

lemma deterministicSplit_member:
  "variants \<noteq> [] \<Longrightarrow> deterministicSplit hash input variants \<in> set variants"
  by (simp add: deterministicSplit_def)

lemma remdups_adj_constant:
  "xs \<noteq> [] \<Longrightarrow> \<forall>x\<in>set xs. x = k \<Longrightarrow> remdups_adj xs = [k]"
  by (induction xs rule: remdups_adj.induct) auto

section \<open>The claims\<close>

text \<open>
  In the statements below a component's cells are those reached from \<open>mount\<close> by any
  list of earlier renders \<open>h\<close>, started in any window \<open>v\<close>; \<open>w\<close> is the window in which
  the render under consideration runs, and \<open>sp\<close> stands for \<open>deterministicSplit\<close>. The
  identifier of a render is the one \<open>useAnonId\<close> yields in it, which is the one the
  component read when it mounted.
\<close>

subsection \<open>C1: the variant depends on the identifier and the experiment name only\<close>

text \<open>
  Claim C1. Two invocations of \<open>useAbTest\<close> with the same experiment name, in which
  \<open>useAnonId\<close> yields the same identifier, resolve the same variant, whatever the
  earlier renders of the two components were and whatever the two windows hold.
\<close>

theorem useAbTest_deterministic:
  "fst (useAnonId (anonState (fst (renders sp h1 (mount, v1)))) (localStorage w1)) =
   fst (useAnonId (anonState (fst (renders sp h2 (mount, v2)))) (localStorage w2)) \<Longrightarrow>
   fst (useAbTest sp e (fst (renders sp h1 (mount, v1)), w1)) =
   fst (useAbTest sp e (fst (renders sp h2 (mount, v2)), w2))"
  by (simp add: variant_resolved anonId_resolved)

text \<open>
  C1 at a concrete input: a split that returns its string argument shows what the
  hook splits. The first component mounted while \<open>u1\<close> was stored and is rendered
  again after the storage has come to hold \<open>u2\<close> and a second key; the second
  component mounts with \<open>u1\<close> stored. Both hold \<open>u1\<close> and both split \<open>u1_footer\<close>.
\<close>

theorem useAbTest_deterministic_witness:
  "fst (useAnonId (anonState (fst (renders (\<lambda>s vs. s)
          [([''inngest-anon-id'' \<mapsto> ''u1''], Header)] (mount, \<lparr>localStorage = Map.empty, Inngest = []\<rparr>))))
        (localStorage
          \<lparr>localStorage = [''inngest-anon-id'' \<mapsto> ''u2'', ''theme'' \<mapsto> ''dark''], Inngest = []\<rparr>)) =
   fst (useAnonId (anonState (fst (renders (\<lambda>s vs. s) [] (mount, \<lparr>localStorage = Map.empty, Inngest = []\<rparr>))))
        (localStorage \<lparr>localStorage = [''inngest-anon-id'' \<mapsto> ''u1''], Inngest = []\<rparr>)) \<and>
   fst (useAbTest (\<lambda>s vs. s) Footer
     (fst (renders (\<lambda>s vs. s)
        [([''inngest-anon-id'' \<mapsto> ''u1''], Header)] (mount, \<lparr>localStorage = Map.empty, Inngest = []\<rparr>)),
      \<lparr>localStorage = [''inngest-anon-id'' \<mapsto> ''u2'', ''theme'' \<mapsto> ''dark''], Inngest = []\<rparr>)) =
   fst (useAbTest (\<lambda>s vs. s) Footer
     (fst (renders (\<lambda>s vs. s) [] (mount, \<lparr>localStorage = Map.empty, Inngest = []\<rparr>)),
      \<lparr>localStorage = [''inngest-anon-id'' \<mapsto> ''u1''], Inngest = []\<rparr>)) \<and>
   fst (useAbTest (\<lambda>s vs. s) Footer
     (fst (renders (\<lambda>s vs. s) [] (mount, \<lparr>localStorage = Map.empty, Inngest = []\<rparr>)),
      \<lparr>localStorage = [''inngest-anon-id'' \<mapsto> ''u1''], Inngest = []\<rparr>)) = ''u1_footer''"
  using useAbTest_deterministic
    [of "\<lambda>s vs. s"
        "[([''inngest-anon-id'' \<mapsto> ''u1''], Header)]" "\<lparr>localStorage = Map.empty, Inngest = []\<rparr>"
        "\<lparr>localStorage = [''inngest-anon-id'' \<mapsto> ''u2'', ''theme'' \<mapsto> ''dark''], Inngest = []\<rparr>"
        "[]" "\<lparr>localStorage = Map.empty, Inngest = []\<rparr>"
        "\<lparr>localStorage = [''inngest-anon-id'' \<mapsto> ''u1''], Inngest = []\<rparr>" Footer]
  by (simp add: useAbTest_def useAnonId_def useLocalStorage_def useMemo_def useEffect_def mount_def
      splitInput_def Let_def)

subsection \<open>C2: the variant is the split of \<open>anonId_experimentName\<close>\<close>

text \<open>
  Claim C2. When \<open>useAnonId\<close> yields the identifier \<open>anonId\<close>, the variant \<open>useAbTest\<close>
  returns for the experiment \<open>e\<close> is the deterministic split applied to the string made
  of \<open>anonId\<close>, an underscore and the experiment name, and to the variant list of \<open>e\<close>.
\<close>

theorem useAbTest_variant:
  "fst (useAnonId (anonState (fst (renders sp h (mount, v)))) (localStorage w)) = Some anonId \<Longrightarrow>
   fst (useAbTest sp e (fst (renders sp h (mount, v)), w)) =
     sp (anonId @ ''_'' @ experimentKey e) (abExperiments e)"
  using variant_resolved [of sp e h v w] anonId_resolved [of sp h v w]
  by (simp add: splitInput_def)

text \<open>
  C2 at a concrete input: a split that returns its string argument shows the string the
  hook builds. The component mounted while \<open>u1\<close> was stored and is rendered again after
  the key has been removed; it still holds \<open>u1\<close>.
\<close>

theorem useAbTest_variant_witness:
  "fst (useAnonId (anonState (fst (renders (\<lambda>s vs. s)
          [([''inngest-anon-id'' \<mapsto> ''u1''], Footer)] (mount, \<lparr>localStorage = Map.empty, Inngest = []\<rparr>))))
        (localStorage \<lparr>localStorage = Map.empty, Inngest = []\<rparr>)) = Some ''u1'' \<and>
   fst (useAbTest (\<lambda>s vs. s) Header
     (fst (renders (\<lambda>s vs. s) [([''inngest-anon-id'' \<mapsto> ''u1''], Footer)] (mount, \<lparr>localStorage = Map.empty, Inngest = []\<rparr>)),
      \<lparr>localStorage = Map.empty, Inngest = []\<rparr>)) = ''u1_header''"
  using useAbTest_variant
    [of "\<lambda>s vs. s" "[([''inngest-anon-id'' \<mapsto> ''u1''], Footer)]" "\<lparr>localStorage = Map.empty, Inngest = []\<rparr>" "\<lparr>localStorage = Map.empty, Inngest = []\<rparr>" "''u1''" Header]
  by (simp add: useAbTest_def useAnonId_def useLocalStorage_def useMemo_def useEffect_def mount_def
      splitInput_def Let_def)

subsection \<open>C3: the variant is one of the experiment's variants\<close>

text \<open>
  Claim C3. Whatever the identifier, the variant \<open>useAbTest\<close> resolves is one of
  \<open>kill-queues-headline\<close> and \<open>event-driven-headerline\<close> for the experiment
  \<open>header\<close>, and one of \<open>removed\<close> and \<open>highlighted\<close> for the experiment \<open>footer\<close>.
  The hook casts the result of the split without checking it, so this rests on the
  split selecting among the labels it is given: it is stated for \<open>deterministicSplit\<close>
  as the spec describes it, with any hash function.
\<close>

theorem useAbTest_variant_enumerated:
  "fst (useAbTest (deterministicSplit hash) Header
          (fst (renders (deterministicSplit hash) h (mount, v)), w))
     \<in> {''kill-queues-headline'', ''event-driven-headerline''} \<and>
   fst (useAbTest (deterministicSplit hash) Footer
          (fst (renders (deterministicSplit hash) h (mount, v)), w))
     \<in> {''removed'', ''highlighted''}"
proof -
  have "deterministicSplit hash input (abExperiments e) \<in> set (abExperiments e)" for input e
    by (rule deterministicSplit_member) (cases e; simp)
  from this [of _ Header] this [of _ Footer] show ?thesis
    by (simp only: variant_resolved abExperiments.simps list.set)
qed

subsection \<open>C4: the identifier is not persisted\<close>

text \<open>
  Claim C4 says that after \<open>useAbTest\<close> has run the local storage contains the
  visitor's identifier under \<open>inngest-anon-id\<close>. It does not when nothing was stored
  there before: a component mounted in a window with an empty local storage leaves the
  key absent.
\<close>

theorem useAbTest_persists_counterexample:
  "localStorage (snd (snd (useAbTest (\<lambda>s vs. hd vs) Header
      (mount, \<lparr>localStorage = Map.empty, Inngest = []\<rparr>)))) ''inngest-anon-id'' = None"
  by (simp add: useAbTest_def useAnonId_def useLocalStorage_def useMemo_def useEffect_def mount_def
      splitInput_def Let_def)

text \<open>
  Claim C4, amended. The hook persists nothing: after \<open>useAnonId\<close>, and after
  \<open>useAbTest\<close> through it, has run, the local storage holds an identifier \<open>a\<close> under
  \<open>inngest-anon-id\<close> exactly when it held \<open>a\<close> there before.
\<close>

theorem useAbTest_persists_nothing:
  "(snd (snd (useAnonId cell ls)) ''inngest-anon-id'' = Some a) = (ls ''inngest-anon-id'' = Some a) \<and>
   (localStorage (snd (snd (useAbTest sp e (f, w)))) ''inngest-anon-id'' = Some a) =
   (localStorage w ''inngest-anon-id'' = Some a)"
  by (simp add: useAnonId_storage useAbTest_storage)

subsection \<open>C5: the events of a mount\<close>

text \<open>
  Claim C5 says that within one mount no second event is emitted for the same resolved
  variant. A component that is rendered with \<open>header\<close>, then \<open>footer\<close>, then \<open>header\<close>
  again emits three events, the first and the third for the same variant, identifier
  and experiment: the dependencies of the effect differ from those of the render before
  each time.
\<close>

theorem mount_single_event_counterexample:
  "Inngest (snd (renders (\<lambda>s vs. hd vs)
      [(Map.empty, Header), (Map.empty, Footer), (Map.empty, Header)]
      (mount, \<lparr>localStorage = Map.empty, Inngest = []\<rparr>))) =
   [\<lparr>name = ''app/experiment.viewed'',
     data = \<lparr>anonymous_id = None, experiment = ''header'', variant = ''kill-queues-headline''\<rparr>\<rparr>,
    \<lparr>name = ''app/experiment.viewed'',
     data = \<lparr>anonymous_id = None, experiment = ''footer'', variant = ''removed''\<rparr>\<rparr>,
    \<lparr>name = ''app/experiment.viewed'',
     data = \<lparr>anonymous_id = None, experiment = ''header'', variant = ''kill-queues-headline''\<rparr>\<rparr>]"
  by (simp add: useAbTest_def useAnonId_def useLocalStorage_def useMemo_def useEffect_def mount_def
      splitInput_def Let_def)

text \<open>
  Claim C5, amended. Within one mount an event is emitted after the first render and
  after every later render whose experiment name differs from that of the render
  before, and after no other render: the events of the mount are, in order, one for each
  run of consecutive renders with the same experiment name, all with the identifier read
  at mount. So a mount whose renders are all passed the same experiment name emits
  exactly one event.
\<close>

theorem mount_events:
  "Inngest (snd (renders sp rs (mount, w))) =
     Inngest w @
     map (\<lambda>e. viewed sp (storageAtMount rs w ''inngest-anon-id'', e)) (remdups_adj (map snd rs)) \<and>
   (rs \<noteq> [] \<and> (\<forall>r\<in>set rs. snd r = e) \<longrightarrow>
      Inngest (snd (renders sp rs (mount, w))) =
        Inngest w @ [viewed sp (storageAtMount rs w ''inngest-anon-id'', e)])"
proof -
  have "remdups_adj (map snd rs) = [e]" if "rs \<noteq> []" "\<forall>r\<in>set rs. snd r = e"
    using that by (intro remdups_adj_constant) auto
  then show ?thesis
    by (simp add: renders_mount_events)
qed

text \<open>
  C5 at a concrete input: two renders of the experiment \<open>footer\<close>, the first with no
  identifier stored and the second after one has been stored, emit one event, without
  identifier.
\<close>

theorem mount_events_witness:
  "[(Map.empty, Footer), ([''inngest-anon-id'' \<mapsto> ''u1''], Footer)] \<noteq> [] \<and>
   snd (Map.empty :: storage, Footer) = Footer \<and>
   snd ([''inngest-anon-id'' \<mapsto> ''u1''], Footer) = Footer \<and>
   Inngest (snd (renders (\<lambda>s vs. hd vs)
      [(Map.empty, Footer), ([''inngest-anon-id'' \<mapsto> ''u1''], Footer)]
      (mount, \<lparr>localStorage = Map.empty, Inngest = []\<rparr>))) =
   [\<lparr>name = ''app/experiment.viewed'',
     data = \<lparr>anonymous_id = None, experiment = ''footer'', variant = ''removed''\<rparr>\<rparr>]"
  using mount_events [of "\<lambda>s vs. hd vs"
      "[(Map.empty, Footer), ([''inngest-anon-id'' \<mapsto> ''u1''], Footer)]"
      "\<lparr>localStorage = Map.empty, Inngest = []\<rparr>" Footer]
  by (simp add: storageAtMount_def viewed_def useAbTest_def useAnonId_def useLocalStorage_def useMemo_def useEffect_def mount_def
      splitInput_def Let_def)

subsection \<open>C6: visitors without a stored identifier\<close>

text \<open>
  Claim C6. When nothing is stored under \<open>inngest-anon-id\<close> as the component mounts,
  \<open>useAnonId\<close> yields \<open>undefined\<close> and \<open>useAbTest\<close> still resolves a variant, the
  split of the string \<open>undefined_\<close> followed by the experiment name, at the mount and at
  every later render; so two visitors without a stored identifier get the same variant
  of an experiment.
\<close>

theorem useAbTest_without_identifier:
  "storageAtMount h1 w1 ''inngest-anon-id'' = None \<Longrightarrow>
   storageAtMount h2 w2 ''inngest-anon-id'' = None \<Longrightarrow>
   fst (useAnonId (anonState (fst (renders sp h1 (mount, v1)))) (localStorage w1)) = None \<and>
   fst (useAbTest sp e (fst (renders sp h1 (mount, v1)), w1)) =
     sp (''undefined_'' @ experimentKey e) (abExperiments e) \<and>
   fst (useAbTest sp e (fst (renders sp h1 (mount, v1)), w1)) =
     fst (useAbTest sp e (fst (renders sp h2 (mount, v2)), w2))"
  by (simp add: variant_resolved anonId_resolved splitInput_def)

text \<open>
  C6 at a concrete input: the first visitor's component mounts on an empty storage; the
  second visitor's mounted on a storage with another key only and is rendered again
  after an identifier has been stored. The split returns its string argument.
\<close>

theorem useAbTest_without_identifier_witness:
  "storageAtMount [] \<lparr>localStorage = Map.empty, Inngest = []\<rparr> ''inngest-anon-id'' = None \<and>
   storageAtMount [([''theme'' \<mapsto> ''dark''], Footer)]
     \<lparr>localStorage = [''inngest-anon-id'' \<mapsto> ''u1''], Inngest = []\<rparr> ''inngest-anon-id'' = None \<and>
   fst (useAnonId (anonState (fst (renders (\<lambda>s vs. s) [] (mount, \<lparr>localStorage = Map.empty, Inngest = []\<rparr>)))) (localStorage \<lparr>localStorage = Map.empty, Inngest = []\<rparr>)) = None \<and>
   fst (useAbTest (\<lambda>s vs. s) Header
     (fst (renders (\<lambda>s vs. s) [] (mount, \<lparr>localStorage = Map.empty, Inngest = []\<rparr>)), \<lparr>localStorage = Map.empty, Inngest = []\<rparr>)) = ''undefined_header'' \<and>
   fst (useAbTest (\<lambda>s vs. s) Header
     (fst (renders (\<lambda>s vs. s) [([''theme'' \<mapsto> ''dark''], Footer)] (mount, \<lparr>localStorage = Map.empty, Inngest = []\<rparr>)),
      \<lparr>localStorage = [''inngest-anon-id'' \<mapsto> ''u1''], Inngest = []\<rparr>)) = ''undefined_header''"
  using useAbTest_without_identifier
    [of "[]" "\<lparr>localStorage = Map.empty, Inngest = []\<rparr>"
        "[([''theme'' \<mapsto> ''dark''], Footer)]"
        "\<lparr>localStorage = [''inngest-anon-id'' \<mapsto> ''u1''], Inngest = []\<rparr>"
        "\<lambda>s vs. s" "\<lparr>localStorage = Map.empty, Inngest = []\<rparr>" Header "\<lparr>localStorage = Map.empty, Inngest = []\<rparr>"]
  by (simp add: storageAtMount_def useAbTest_def useAnonId_def useLocalStorage_def useMemo_def useEffect_def mount_def
      splitInput_def Let_def)

subsection \<open>C7: the event agrees with the hook's result\<close>

text \<open>
  Claim C7. The render that mounts the component emits exactly one event; its name is
  \<open>app/experiment.viewed\<close>, its \<open>variant\<close> is the variant the hook returns, its
  \<open>experiment\<close> is the experiment name passed, and its \<open>anonymous_id\<close> is the
  identifier \<open>useAnonId\<close> reads, \<open>undefined\<close> included. A later render emits either
  nothing or one event of the same form, with the identifier \<open>useAnonId\<close> yields in it.
\<close>

theorem experiment_viewed_consistent:
  "Inngest (snd (snd (useAbTest sp e (mount, w)))) =
     Inngest w @
     [\<lparr>name = ''app/experiment.viewed'',
       data = \<lparr>anonymous_id = fst (useAnonId (anonState mount) (localStorage w)),
               experiment = experimentKey e,
               variant = fst (useAbTest sp e (mount, w))\<rparr>\<rparr>] \<and>
   (Inngest (snd (snd (useAbTest sp e (fst (renders sp h (mount, v)), w)))) = Inngest w \<or>
    Inngest (snd (snd (useAbTest sp e (fst (renders sp h (mount, v)), w)))) =
      Inngest w @
      [\<lparr>name = ''app/experiment.viewed'',
        data = \<lparr>anonymous_id =
                  fst (useAnonId (anonState (fst (renders sp h (mount, v)))) (localStorage w)),
                experiment = experimentKey e,
                variant = fst (useAbTest sp e (fst (renders sp h (mount, v)), w))\<rparr>\<rparr>])"
proof -
  have "anonState mount = None"
    by (simp add: mount_def)
  then have first: "Inngest (snd (snd (useAbTest sp e (mount, w)))) =
     Inngest w @
     [\<lparr>name = ''app/experiment.viewed'',
       data = \<lparr>anonymous_id = fst (useAnonId (anonState mount) (localStorage w)),
               experiment = experimentKey e,
               variant = fst (useAbTest sp e (mount, w))\<rparr>\<rparr>]"
    by (simp add: useAbTest_mount useAnonId_mount viewed_def)
  have later: "Inngest (snd (snd (useAbTest sp e (fst (renders sp h (mount, v)), w)))) = Inngest w \<or>
    Inngest (snd (snd (useAbTest sp e (fst (renders sp h (mount, v)), w)))) =
      Inngest w @
      [\<lparr>name = ''app/experiment.viewed'',
        data = \<lparr>anonymous_id =
                  fst (useAnonId (anonState (fst (renders sp h (mount, v)))) (localStorage w)),
                experiment = experimentKey e,
                variant = fst (useAbTest sp e (fst (renders sp h (mount, v)), w))\<rparr>\<rparr>]"
  proof (cases h)
    case Nil
    with first show ?thesis by simp
  next
    case (Cons r h')
    then obtain a e0 where f: "fst (renders sp h (mount, v)) = committed sp (a, e0)"
      by (simp add: renders_mount_fiber)
    have "anonState (committed sp (a, e0)) = Some a"
      by (simp add: committed_def)
    then show ?thesis
      unfolding f by (simp add: useAbTest_committed useAnonId_mounted viewed_def)
  qed
  from first later show ?thesis by (rule conjI)
qed

subsection \<open>C8: the hooks do not write to the local storage\<close>

text \<open>
  Claim C8. \<open>useAnonId\<close> and \<open>useAbTest\<close> leave the local storage as they found it,
  whatever it holds and whatever the component's cells are; in particular what is stored
  under \<open>inngest-anon-id\<close>, or its absence, is unchanged.
\<close>

theorem hooks_never_write:
  "snd (snd (useAnonId cell ls)) = ls \<and>
   localStorage (snd (snd (useAbTest sp e (f, w)))) = localStorage w"
  by (simp add: useAnonId_storage useAbTest_storage)

end
